theory Spec2Isabelle
  imports Complex_Main
begin

section \<open>The molecule class of psinglepoint (molecule.py)\<close>

text \<open>
  The class \<^verbatim>\<open>Molecule\<close> stores atomic symbols, a numpy array of Cartesian
  coordinates, a units string, the atomic masses and the atom count. Its methods
  mutate the object (\<^verbatim>\<open>set_units\<close>, \<^verbatim>\<open>set_coordinates\<close>) and, through
  the in-place operators \<^verbatim>\<open>*=\<close> and \<^verbatim>\<open>/=\<close>, the array the object refers to.

  The embedding keeps both levels apart. A numpy array lives in a store and the
  object holds its address, so that two objects sharing one array and one object
  holding a private copy are different situations. The object itself is a record
  passed in and returned.

  An array has a dtype, which \<^verbatim>\<open>np.array\<close> infers from its argument: \<open>int64\<close>
  for integers only, \<open>float64\<close> as soon as one number is a float. The dtype
  decides whether the in-place operators of \<^verbatim>\<open>set_units\<close> go through, so the
  store keeps it beside the entries. The entries themselves are of one type
  variable with the symbols \<open>*\<close> and \<open>/\<close> only (no law is assumed of them): what
  is proved of \<^verbatim>\<open>set_units\<close> holds of whatever arithmetic the entries have.
\<close>

subsection \<open>Arrays and the store\<close>

type_synonym 'a ndarray = "'a list list"

type_synonym addr = nat

datatype dtype = Int64 | Float64

record 'a store =
  cell :: "addr \<Rightarrow> 'a ndarray"
  dtype_of :: "addr \<Rightarrow> dtype"
  fresh :: addr

subsection \<open>Errors\<close>

text \<open>
  \<open>InvalidUnitsError\<close> is the \<^verbatim>\<open>ValueError\<close> of line 49.
  \<open>UnknownSymbolError l\<close> is what \<^verbatim>\<open>atomdata.get_mass(l)\<close> raises for a
  symbol it does not know. \<open>TypeError\<close> is numpy's refusal to write the float
  result of an in-place operation into an integer array. \<open>IndexError\<close> is raised
  by \<^verbatim>\<open>str.format\<close> when a coordinate row has fewer than three entries, and by
  a write outside an array. \<open>FormatError\<close> and \<open>NoUnitsError\<close> belong to the
  coordinate-string parser.
\<close>

datatype error =
    InvalidUnitsError
  | UnknownSymbolError string
  | TypeError
  | IndexError
  | FormatError
  | NoUnitsError

text \<open>A method that mutates its object can raise after it has assigned: its
  outcome is the state it leaves, returned or raised.\<close>

datatype 'st outcome = Returns 'st | Raises error 'st

fun state_of :: "'st outcome \<Rightarrow> 'st" where
  "state_of (Returns st) = st"
| "state_of (Raises e st) = st"

subsection \<open>Operations on arrays\<close>

text \<open>\<^verbatim>\<open>np.array(x)\<close> and \<^verbatim>\<open>a.copy()\<close> both build a new array with a dtype and
  entries; the new array gets the next unused address.\<close>

definition alloc :: "dtype \<Rightarrow> 'a ndarray \<Rightarrow> 'a store \<Rightarrow> addr \<times> 'a store" where
  "alloc dt a s =
     (fresh s, s\<lparr>cell := (cell s)(fresh s := a), dtype_of := (dtype_of s)(fresh s := dt),
                 fresh := Suc (fresh s)\<rparr>)"

text \<open>\<^verbatim>\<open>a *= c\<close> and \<^verbatim>\<open>a /= c\<close> with a float scalar \<open>c\<close>. On a \<open>float64\<close> array
  every entry is replaced and the address stays. On an \<open>int64\<close> array the result
  would be a float array, which numpy does not cast back: the operator raises and
  the array is as before.\<close>

definition imul :: "addr \<Rightarrow> 'a::times \<Rightarrow> 'a store \<Rightarrow> error + 'a store" where
  "imul p c s =
     (if dtype_of s p = Float64
      then Inr (s\<lparr>cell := (cell s)(p := map (map (\<lambda>x. x * c)) (cell s p))\<rparr>)
      else Inl TypeError)"

definition itruediv :: "addr \<Rightarrow> 'a::inverse \<Rightarrow> 'a store \<Rightarrow> error + 'a store" where
  "itruediv p c s =
     (if dtype_of s p = Float64
      then Inr (s\<lparr>cell := (cell s)(p := map (map (\<lambda>x. x / c)) (cell s p))\<rparr>)
      else Inl TypeError)"

subsection \<open>Strings\<close>

text \<open>\<^verbatim>\<open>str.lower()\<close>, on the ASCII letters. (No character outside ASCII has a
  lower-case form among the letters of \<open>angstrom\<close> and \<open>bohr\<close>, so the test of
  line 48 is not affected by the restriction.)\<close>

definition lower_char :: "char \<Rightarrow> char" where
  "lower_char c =
     (case map_of (zip ''ABCDEFGHIJKLMNOPQRSTUVWXYZ'' ''abcdefghijklmnopqrstuvwxyz'') c of
        Some d \<Rightarrow> d
      | None \<Rightarrow> c)"

definition lower :: "string \<Rightarrow> string" where
  "lower s = map lower_char s"

subsection \<open>The object\<close>

record 'm molecule =
  labels :: "string list"
  coordinates :: addr
  units :: string
  masses :: "'m list"
  natom :: nat

text \<open>Line 46, \<^verbatim>\<open>[atomdata.get_mass(label) for label in labels]\<close>. The module
  \<^verbatim>\<open>atomdata\<close> is not part of the sources; its table is the parameter
  \<open>get_mass\<close>, a partial map, and a symbol outside its domain raises. The
  comprehension stops at the first symbol that raises.\<close>

fun get_masses :: "(string \<Rightarrow> 'm option) \<Rightarrow> string list \<Rightarrow> error + 'm list" where
  "get_masses get_mass [] = Inr []"
| "get_masses get_mass (label # ls) =
     (case get_mass label of
        None \<Rightarrow> Inl (UnknownSymbolError label)
      | Some w \<Rightarrow>
          (case get_masses get_mass ls of
             Inl e \<Rightarrow> Inl e
           | Inr ws \<Rightarrow> Inr (w # ws)))"

text \<open>\<^verbatim>\<open>Molecule.__init__\<close>, lines 40 to 49, statement by statement: the array is
  built, the units are lower-cased, the masses are looked up, and only then are
  the units tested. The argument \<^verbatim>\<open>coordinates\<close> is given as what
  \<^verbatim>\<open>np.array\<close> makes of it: the dtype \<open>dt\<close> and the entries \<open>cs\<close>.\<close>

definition init ::
  "(string \<Rightarrow> 'm option) \<Rightarrow> string list \<Rightarrow> dtype \<Rightarrow> 'a ndarray \<Rightarrow> string \<Rightarrow> 'a store
     \<Rightarrow> error + ('m molecule \<times> 'a store)" where
  "init get_mass ls dt cs us s =
     (let (p, s') = alloc dt cs s;
          u = lower us
      in case get_masses get_mass ls of
           Inl e \<Rightarrow> Inl e
         | Inr ms \<Rightarrow>
             if u \<noteq> ''angstrom'' \<and> u \<noteq> ''bohr'' then Inl InvalidUnitsError
             else Inr (\<lparr>labels = ls, coordinates = p, units = u, masses = ms,
                         natom = length ls\<rparr>, s'))"

text \<open>\<^verbatim>\<open>Molecule.set_units\<close>, lines 51 to 57. The constant
  \<^verbatim>\<open>physconst.bohr2angstrom\<close>, a float, is not part of the sources and is the
  first parameter. Lines 53 and 56 assign the units before lines 54 and 57
  operate on the array, so when the operator raises the object already has the
  new units.\<close>

definition set_units ::
  "'a::{times,inverse} \<Rightarrow> string \<Rightarrow> 'm molecule \<Rightarrow> 'a store
     \<Rightarrow> ('m molecule \<times> 'a store) outcome" where
  "set_units bohr2angstrom target self s =
     (if target = ''angstrom'' \<and> units self = ''bohr'' then
        (let self' = self\<lparr>units := ''angstrom''\<rparr>
         in case imul (coordinates self') bohr2angstrom s of
              Inl e \<Rightarrow> Raises e (self', s)
            | Inr s' \<Rightarrow> Returns (self', s'))
      else if target = ''bohr'' \<and> units self = ''angstrom'' then
        (let self' = self\<lparr>units := ''bohr''\<rparr>
         in case itruediv (coordinates self') bohr2angstrom s of
              Inl e \<Rightarrow> Raises e (self', s)
            | Inr s' \<Rightarrow> Returns (self', s'))
      else Returns (self, s))"

text \<open>\<^verbatim>\<open>Molecule.__iter__\<close>, lines 59 to 61. It reads and assigns nothing.\<close>

definition iter :: "'m molecule \<Rightarrow> 'a store \<Rightarrow> (string \<times> 'a list) list" where
  "iter self s = zip (labels self) (cell s (coordinates self))"

text \<open>\<^verbatim>\<open>Molecule.set_coordinates\<close>, lines 76 to 80. The argument is stored as it
  is given, a reference; no array is read or written.\<close>

definition set_coordinates :: "addr \<Rightarrow> string option \<Rightarrow> 'm molecule \<Rightarrow> 'm molecule" where
  "set_coordinates c us self =
     (let u = (case us of None \<Rightarrow> units self | Some v \<Rightarrow> v)
      in self\<lparr>units := u, coordinates := c\<rparr>)"

text \<open>\<^verbatim>\<open>Molecule.copy\<close>, lines 73 and 74: \<^verbatim>\<open>self.coordinates.copy()\<close> builds one
  new array and the constructor, through \<^verbatim>\<open>np.array\<close>, a second one; both
  keep the dtype.\<close>

definition copy ::
  "(string \<Rightarrow> 'm option) \<Rightarrow> 'm molecule \<Rightarrow> 'a store \<Rightarrow> error + ('m molecule \<times> 'a store)" where
  "copy get_mass self s =
     (let (q, s1) = alloc (dtype_of s (coordinates self)) (cell s (coordinates self)) s
      in init get_mass (labels self) (dtype_of s1 q) (cell s1 q) (units self) s1)"

text \<open>Writing one entry, \<^verbatim>\<open>a[i][j] = v\<close> on the array at an address: the
  mutation of an array from outside the class. An index outside the array
  raises. (\<open>v\<close> is the entry as the array holds it afterwards; numpy converts
  what is assigned to the dtype of the array.)\<close>

definition setitem :: "addr \<Rightarrow> nat \<Rightarrow> nat \<Rightarrow> 'a \<Rightarrow> 'a store \<Rightarrow> error + 'a store" where
  "setitem p i j v s =
     (let a = cell s p
      in if i < length a \<and> j < length (a ! i)
         then Inr (s\<lparr>cell := (cell s)(p := a[i := (a ! i)[j := v]])\<rparr>)
         else Inl IndexError)"

subsection \<open>Stringification\<close>

abbreviation newline :: char where
  "newline \<equiv> CHR 0x0A"

text \<open>The format specifications of line 65: \<^verbatim>\<open>{:2s}\<close> pads a string on the right
  to two characters, \<^verbatim>\<open>{: >15.10f}\<close> pads the \<^verbatim>\<open>.10f\<close> rendering of a
  number on the left to fifteen. Neither cuts a longer string. The \<^verbatim>\<open>.10f\<close>
  rendering itself belongs to Python and is the parameter \<open>fixed10\<close>.\<close>

definition ljust :: "nat \<Rightarrow> string \<Rightarrow> string" where
  "ljust n w = w @ replicate (n - length w) CHR '' ''"

definition rjust :: "nat \<Rightarrow> string \<Rightarrow> string" where
  "rjust n w = replicate (n - length w) CHR '' '' @ w"

definition fmt :: "('a \<Rightarrow> string) \<Rightarrow> string \<Rightarrow> 'a \<Rightarrow> 'a \<Rightarrow> 'a \<Rightarrow> string" where
  "fmt fixed10 label x y z =
     ljust 2 label @ '' '' @ rjust 15 (fixed10 x) @ '' '' @ rjust 15 (fixed10 y) @ '' ''
       @ rjust 15 (fixed10 z) @ [newline]"

text \<open>\<^verbatim>\<open>fmt.format(label, *coords)\<close>: the row is unpacked into positional
  arguments; the format reads three of them, ignores any further one and raises
  when there are fewer.\<close>

definition format_line :: "('a \<Rightarrow> string) \<Rightarrow> string \<Rightarrow> 'a list \<Rightarrow> error + string" where
  "format_line fixed10 label coords =
     (case coords of
        x # y # z # _ \<Rightarrow> Inr (fmt fixed10 label x y z)
      | _ \<Rightarrow> Inl IndexError)"

text \<open>The loop of lines 66 and 67 over \<^verbatim>\<open>self\<close>, that is over \<open>iter\<close>.\<close>

fun str_loop :: "('a \<Rightarrow> string) \<Rightarrow> string \<Rightarrow> (string \<times> 'a list) list \<Rightarrow> error + string" where
  "str_loop fixed10 ret [] = Inr ret"
| "str_loop fixed10 ret ((label, coords) # rest) =
     (case format_line fixed10 label coords of
        Inl e \<Rightarrow> Inl e
      | Inr line \<Rightarrow> str_loop fixed10 (ret @ line) rest)"

text \<open>\<^verbatim>\<open>Molecule.__str__\<close>, lines 63 to 68.\<close>

definition str :: "('a \<Rightarrow> string) \<Rightarrow> 'm molecule \<Rightarrow> 'a store \<Rightarrow> error + string" where
  "str fixed10 self s = str_loop fixed10 (''units '' @ units self @ [newline]) (iter self s)"

subsection \<open>The coordinate-string parser\<close>

text \<open>
  The class \<^verbatim>\<open>CoordinateString\<close> of \<^verbatim>\<open>parse.py\<close> is not part of the sources.
  Its three methods are modelled from the specification, section 4.1. A
  coordinate string is its text. Lines are separated by the newline character and
  tokens by white space.
\<close>

text \<open>Modelled from the spec: the white space that separates tokens
  (``whitespace-separated'', section 4.1), taken as the ASCII characters that
  Python counts as white space.\<close>

definition is_space :: "char \<Rightarrow> bool" where
  "is_space c = (c \<in> set [CHR '' '', CHR 0x09, CHR 0x0A, CHR 0x0B, CHR 0x0C, CHR 0x0D,
                            CHR 0x1C, CHR 0x1D, CHR 0x1E, CHR 0x1F])"

text \<open>Modelled from the spec: the tokens of a line. \<open>split_from w t\<close> continues
  a token \<open>w\<close> begun earlier.\<close>

fun split_from :: "string \<Rightarrow> string \<Rightarrow> string list" where
  "split_from w [] = (if w = [] then [] else [w])"
| "split_from w (c # cs) =
     (if is_space c then (if w = [] then split_from [] cs else w # split_from [] cs)
      else split_from (w @ [c]) cs)"

text \<open>Modelled from the spec: the white-space separated tokens of a line, as
  \<^verbatim>\<open>str.split()\<close> gives them.\<close>

definition split :: "string \<Rightarrow> string list" where
  "split t = split_from [] t"

text \<open>Modelled from the spec: the lines of a text, separated by the newline
  character; an empty last line is not a line.\<close>

fun lines_from :: "string \<Rightarrow> string \<Rightarrow> string list" where
  "lines_from l [] = (if l = [] then [] else [l])"
| "lines_from l (c # cs) =
     (if c = newline then l # lines_from [] cs else lines_from (l @ [c]) cs)"

definition splitlines :: "string \<Rightarrow> string list" where
  "splitlines t = lines_from [] t"

text \<open>Modelled from the spec: the units directive, a line \<^verbatim>\<open>units <token>\<close>.\<close>

definition is_units_line :: "string list \<Rightarrow> bool" where
  "is_units_line toks = (case toks of [k, u] \<Rightarrow> k = ''units'' | _ \<Rightarrow> False)"

text \<open>Modelled from the spec: \<^verbatim>\<open>CoordinateString.extract_units\<close> (absent from the
  sources). ``Scans lines for a directive of the form \<^verbatim>\<open>units <token>\<close>; returns
  the token lower-cased.'' \<open>None\<close> when there is no directive.\<close>

definition extract_units :: "string \<Rightarrow> string option" where
  "extract_units text =
     (case filter is_units_line (map split (splitlines text)) of
        [] \<Rightarrow> None
      | toks # _ \<Rightarrow> Some (lower (toks ! 1)))"

text \<open>Modelled from the spec: the data lines, ``lines that are not the units
  directive and are not blank''.\<close>

definition data_lines :: "string \<Rightarrow> string list list" where
  "data_lines text =
     filter (\<lambda>toks. toks \<noteq> [] \<and> \<not> is_units_line toks) (map split (splitlines text))"

text \<open>Modelled from the spec: one result per data line, in line order; the
  first failing line fails the extraction.\<close>

fun collect :: "('x \<Rightarrow> error + 'y) \<Rightarrow> 'x list \<Rightarrow> error + 'y list" where
  "collect f [] = Inr []"
| "collect f (x # xs) =
     (case f x of
        Inl e \<Rightarrow> Inl e
      | Inr y \<Rightarrow> (case collect f xs of Inl e \<Rightarrow> Inl e | Inr ys \<Rightarrow> Inr (y # ys)))"

text \<open>Modelled from the spec: ``a data line with fewer than 4 whitespace-separated
  tokens, or non-numeric coordinate tokens, fails with a FormatError''; the first
  token is the atomic symbol and the next three are the coordinates. Python's
  \<^verbatim>\<open>float\<close> is the parameter \<open>to_float\<close>, \<open>None\<close> where it raises.\<close>

definition line_label :: "string list \<Rightarrow> error + string" where
  "line_label toks = (case toks of l # x # y # z # _ \<Rightarrow> Inr l | _ \<Rightarrow> Inl FormatError)"

definition line_coordinates :: "(string \<Rightarrow> 'a option) \<Rightarrow> string list \<Rightarrow> error + 'a list" where
  "line_coordinates to_float toks =
     (case toks of
        l # x # y # z # _ \<Rightarrow>
          (case (to_float x, to_float y, to_float z) of
             (Some a, Some b, Some c) \<Rightarrow> Inr [a, b, c]
           | _ \<Rightarrow> Inl FormatError)
      | _ \<Rightarrow> Inl FormatError)"

text \<open>Modelled from the spec: \<^verbatim>\<open>CoordinateString.extract_labels\<close> and
  \<^verbatim>\<open>CoordinateString.extract_coordinates\<close> (absent from the sources).\<close>

definition extract_labels :: "string \<Rightarrow> error + string list" where
  "extract_labels text = collect line_label (data_lines text)"

definition extract_coordinates :: "(string \<Rightarrow> 'a option) \<Rightarrow> string \<Rightarrow> error + 'a ndarray" where
  "extract_coordinates to_float text = collect (line_coordinates to_float) (data_lines text)"

text \<open>\<^verbatim>\<open>Molecule.from_coord_string\<close>, lines 34 to 38. The extracted coordinates
  are floats (specification, section 4.1), so the array is \<open>float64\<close>.\<close>

definition from_coord_string ::
  "(string \<Rightarrow> 'm option) \<Rightarrow> (string \<Rightarrow> 'a option) \<Rightarrow> string \<Rightarrow> string \<Rightarrow> 'a store
     \<Rightarrow> error + ('m molecule \<times> 'a store)" where
  "from_coord_string get_mass to_float coord_string us s =
     (case extract_labels coord_string of
        Inl e \<Rightarrow> Inl e
      | Inr ls \<Rightarrow>
          (case extract_coordinates to_float coord_string of
             Inl e \<Rightarrow> Inl e
           | Inr cs \<Rightarrow> init get_mass ls Float64 cs us s))"

text \<open>\<^verbatim>\<open>Molecule.from_string\<close>, lines 28 to 32. The specification leaves open
  what \<^verbatim>\<open>extract_units\<close> returns for a text without a directive; the model
  fails there with \<open>NoUnitsError\<close>.\<close>

definition from_string ::
  "(string \<Rightarrow> 'm option) \<Rightarrow> (string \<Rightarrow> 'a option) \<Rightarrow> string \<Rightarrow> 'a store
     \<Rightarrow> error + ('m molecule \<times> 'a store)" where
  "from_string get_mass to_float mol_str s =
     (case extract_units mol_str of
        None \<Rightarrow> Inl NoUnitsError
      | Some us \<Rightarrow> from_coord_string get_mass to_float mol_str us s)"

subsection \<open>Predicates of the statements\<close>

text \<open>A token: not empty and free of white space. Every atomic symbol is one.\<close>

definition is_token :: "string \<Rightarrow> bool" where
  "is_token w = (w \<noteq> [] \<and> list_all (\<lambda>c. \<not> is_space c) w)"

text \<open>The invariant of the data model: as many coordinate rows and as many masses
  as labels.\<close>

definition shape_ok :: "'m molecule \<Rightarrow> 'a store \<Rightarrow> bool" where
  "shape_ok self s =
     (length (labels self) = length (cell s (coordinates self))
      \<and> length (masses self) = length (labels self))"

text \<open>A number is representable in the format when its rendering is one token
  and \<^verbatim>\<open>float\<close> reads the rendering back as a number close to it.\<close>

definition representable ::
  "('a \<Rightarrow> string) \<Rightarrow> (string \<Rightarrow> 'a option) \<Rightarrow> ('a \<Rightarrow> 'a \<Rightarrow> bool) \<Rightarrow> 'a \<Rightarrow> bool" where
  "representable fixed10 to_float close x =
     (is_token (fixed10 x)
      \<and> (case to_float (fixed10 x) of None \<Rightarrow> False | Some y \<Rightarrow> close x y))"

text \<open>The line of one atom without its final newline, and the tokens of that
  line; both are used in the proofs only.\<close>

definition atom_line :: "('a \<Rightarrow> string) \<Rightarrow> string \<times> 'a list \<Rightarrow> string" where
  "atom_line fixed10 lr = (case lr of (l, r) \<Rightarrow> butlast (fmt fixed10 l (r ! 0) (r ! 1) (r ! 2)))"

definition atom_tokens :: "('a \<Rightarrow> string) \<Rightarrow> string \<times> 'a list \<Rightarrow> string list" where
  "atom_tokens fixed10 lr =
     (case lr of (l, r) \<Rightarrow> [l, fixed10 (r ! 0), fixed10 (r ! 1), fixed10 (r ! 2)])"

subsection \<open>Python's number rendering and reading, on exact values\<close>

text \<open>
  The \<^verbatim>\<open>.10f\<close> rendering and \<^verbatim>\<open>float\<close> are Python's, not the repository's, and
  are parameters of the definitions above. To evaluate statements on concrete
  molecules they are given here for real numbers: \<open>format_10f\<close> rounds the
  magnitude to ten decimals, a tie to the even neighbour, and writes sign,
  integer digits, point and ten decimals; \<open>parse_float\<close> reads such plain
  decimal literals exactly and is not meant for the other strings \<^verbatim>\<open>float\<close>
  accepts.
\<close>

definition digit_char :: "nat \<Rightarrow> char" where
  "digit_char d = ''0123456789'' ! d"

fun show_nat :: "nat \<Rightarrow> string" where
  "show_nat n = (if n < 10 then [digit_char n] else show_nat (n div 10) @ [digit_char (n mod 10)])"

declare show_nat.simps [simp del]

definition zfill :: "nat \<Rightarrow> string \<Rightarrow> string" where
  "zfill n w = replicate (n - length w) CHR ''0'' @ w"

text \<open>Rounding a number that is not negative to the nearest integer, a tie to
  the even one.\<close>

definition round_half_even :: "real \<Rightarrow> nat" where
  "round_half_even y =
     (let f = \<lfloor>y\<rfloor>; d = y - of_int f
      in nat (if d < 1 / 2 \<or> (d = 1 / 2 \<and> even f) then f else f + 1))"

definition scaled :: "real \<Rightarrow> nat" where
  "scaled x = round_half_even (\<bar>x\<bar> * 10 ^ 10)"

definition format_10f :: "real \<Rightarrow> string" where
  "format_10f x =
     (if x < 0 then ''-'' else []) @ show_nat (scaled x div 10 ^ 10) @ ''.''
       @ zfill 10 (show_nat (scaled x mod 10 ^ 10))"

definition digit_val :: "char \<Rightarrow> nat option" where
  "digit_val c = map_of (zip ''0123456789'' [0, 1, 2, 3, 4, 5, 6, 7, 8, 9]) c"

fun digits_val :: "nat \<Rightarrow> string \<Rightarrow> nat option" where
  "digits_val acc [] = Some acc"
| "digits_val acc (c # cs) =
     (case digit_val c of None \<Rightarrow> None | Some d \<Rightarrow> digits_val (10 * acc + d) cs)"

definition parse_float :: "string \<Rightarrow> real option" where
  "parse_float w =
     (let neg = (w \<noteq> [] \<and> hd w = CHR ''-'');
          body = (if neg then tl w else w);
          ip = takeWhile (\<lambda>c. c \<noteq> CHR ''.'') body;
          fp = drop (Suc (length ip)) body
      in if ip = [] \<and> fp = [] then None
         else (case (digits_val 0 ip, digits_val 0 fp) of
                 (Some a, Some b) \<Rightarrow>
                   Some ((if neg then - 1 else 1) * (real a + real b / 10 ^ length fp))
               | _ \<Rightarrow> None))"

definition is_digit :: "char \<Rightarrow> bool" where
  "is_digit c = (c \<in> set ''0123456789'')"

text \<open>Equal within \<open>1e-10\<close>.\<close>

definition close10 :: "real \<Rightarrow> real \<Rightarrow> bool" where
  "close10 a b = (\<bar>a - b\<bar> \<le> 1 / 10 ^ 10)"

subsection \<open>Example data\<close>

text \<open>The water molecule of the \<^verbatim>\<open>__main__\<close> block, lines 90 to 95, a store with
  no array in it, and a mass table that knows oxygen and hydrogen (by their mass
  numbers; the values play no role).\<close>

definition empty_store :: "'a store" where
  "empty_store = \<lparr>cell = (\<lambda>p. []), dtype_of = (\<lambda>p. Float64), fresh = 0\<rparr>"

definition water_labels :: "string list" where
  "water_labels = [''O'', ''H'', ''H'']"

definition water_coordinates :: "real ndarray" where
  "water_coordinates =
     [[0, 0, - 0.0647162893],
      [0, - 0.7490459967, 0.5135472375],
      [0, 0.7490459967, 0.5135472375]]"

definition example_masses :: "string \<Rightarrow> int option" where
  "example_masses = [''O'' \<mapsto> 16, ''H'' \<mapsto> 1]"

text \<open>The object and the store that
  \<^verbatim>\<open>Molecule(('O', 'H', 'H'), water_coordinates, 'angstrom')\<close> leaves behind when
  it runs in the empty store (lemma \<open>init_water\<close> below). The coordinates are
  floats, the array is \<open>float64\<close>.\<close>

definition water :: "int molecule" where
  "water = \<lparr>labels = water_labels, coordinates = 0, units = ''angstrom'',
             masses = [16, 1, 1], natom = 3\<rparr>"

definition water_store :: "real store" where
  "water_store = \<lparr>cell = (\<lambda>p. [])(0 := water_coordinates), dtype_of = (\<lambda>p. Float64),
                   fresh = 1\<rparr>"

text \<open>A molecule built from integer coordinates,
  \<^verbatim>\<open>Molecule(('H', 'H'), [[0, 0, 0], [0, 0, 1]], 'bohr')\<close>: the object and the
  store it leaves behind when it runs in the empty store (lemma \<open>init_h2\<close>
  below). The array is \<open>int64\<close>.\<close>

definition h2_labels :: "string list" where
  "h2_labels = [''H'', ''H'']"

definition h2_coordinates :: "real ndarray" where
  "h2_coordinates = [[0, 0, 0], [0, 0, 1]]"

definition h2 :: "int molecule" where
  "h2 = \<lparr>labels = h2_labels, coordinates = 0, units = ''bohr'', masses = [1, 1], natom = 2\<rparr>"

definition h2_store :: "real store" where
  "h2_store = \<lparr>cell = (\<lambda>p. [])(0 := h2_coordinates),
                dtype_of = (\<lambda>p. Float64)(0 := Int64), fresh = 1\<rparr>"

text \<open>A value for \<^verbatim>\<open>physconst.bohr2angstrom\<close>, used where a statement is
  evaluated.\<close>

definition example_bohr2angstrom :: real where
  "example_bohr2angstrom = 0.52917720859"

text \<open>What \<^verbatim>\<open>str\<close> gives for the water molecule.\<close>

definition water_str :: string where
  "water_str =
     ''units angstrom'' @ [newline]
     @ ''O     0.0000000000    0.0000000000   -0.0647162893'' @ [newline]
     @ ''H     0.0000000000   -0.7490459967    0.5135472375'' @ [newline]
     @ ''H     0.0000000000    0.7490459967    0.5135472375'' @ [newline]"

section \<open>Properties\<close>

subsection \<open>Auxiliary facts\<close>

lemma get_masses_known:
  "\<forall>l \<in> set ls. get_mass l \<noteq> None \<Longrightarrow> get_masses get_mass ls = Inr (map (\<lambda>l. the (get_mass l)) ls)"
  by (induction ls) auto

lemma lower_valid [simp]: "lower ''angstrom'' = ''angstrom''" "lower ''bohr'' = ''bohr''"
  by (simp_all add: lower_def lower_char_def)

lemma example_masses_simps:
  "example_masses ''O'' = Some 16" "example_masses ''H'' = Some 1"
  "example_masses ''Xx'' = None"
  by (simp_all add: example_masses_def)

lemma water_labels_known: "\<forall>l \<in> set water_labels. example_masses l \<noteq> None"
  by (simp add: water_labels_def example_masses_simps)

lemma get_masses_length:
  "get_masses get_mass ls = Inr ms \<Longrightarrow> length ms = length ls"
  by (induction ls arbitrary: ms) (auto split: option.splits sum.splits)

lemma init_Inr:
  "init get_mass ls dt cs us s = Inr (m, s1) \<Longrightarrow>
     labels m = ls \<and> coordinates m = fresh s \<and> units m = lower us
     \<and> (units m = ''angstrom'' \<or> units m = ''bohr'')
     \<and> get_masses get_mass ls = Inr (masses m) \<and> natom m = length ls
     \<and> s1 = s\<lparr>cell := (cell s)(fresh s := cs), dtype_of := (dtype_of s)(fresh s := dt),
               fresh := Suc (fresh s)\<rparr>"
  by (auto simp: init_def alloc_def Let_def split: sum.splits if_splits)

lemma init_valid:
  assumes "\<forall>l \<in> set ls. get_mass l \<noteq> None" and "us = ''angstrom'' \<or> us = ''bohr''"
  shows "\<exists>ms. init get_mass ls dt cs us s =
     Inr (\<lparr>labels = ls, coordinates = fresh s, units = us, masses = ms, natom = length ls\<rparr>,
          s\<lparr>cell := (cell s)(fresh s := cs), dtype_of := (dtype_of s)(fresh s := dt),
            fresh := Suc (fresh s)\<rparr>)"
  using assms by (auto simp: init_def alloc_def Let_def get_masses_known)

lemma init_water:
  "init example_masses water_labels Float64 water_coordinates ''angstrom'' empty_store =
     Inr (water, water_store)"
  by (simp add: init_def alloc_def empty_store_def water_labels_def example_masses_def
        water_def water_store_def fun_upd_idem)

lemma water_simps:
  "labels water = water_labels" "coordinates water = 0" "units water = ''angstrom''"
  "cell water_store 0 = water_coordinates" "dtype_of water_store 0 = Float64"
  "fresh water_store = 1"
  by (simp_all add: water_def water_store_def)

lemma init_h2:
  "init example_masses h2_labels Int64 h2_coordinates ''bohr'' empty_store = Inr (h2, h2_store)"
  by (simp add: init_def alloc_def empty_store_def h2_labels_def example_masses_def
        h2_def h2_store_def)

lemma h2_simps:
  "labels h2 = h2_labels" "coordinates h2 = 0" "units h2 = ''bohr''"
  "cell h2_store 0 = h2_coordinates" "dtype_of h2_store 0 = Int64" "fresh h2_store = 1"
  by (simp_all add: h2_def h2_store_def)

lemma set_units_to_angstrom:
  "units self = ''bohr'' \<Longrightarrow> dtype_of s (coordinates self) = Float64 \<Longrightarrow>
   set_units c ''angstrom'' self s =
     Returns (self\<lparr>units := ''angstrom''\<rparr>,
      s\<lparr>cell := (cell s)(coordinates self := map (map (\<lambda>x. x * c)) (cell s (coordinates self)))\<rparr>)"
  by (simp add: set_units_def imul_def)

lemma set_units_to_bohr:
  "units self = ''angstrom'' \<Longrightarrow> dtype_of s (coordinates self) = Float64 \<Longrightarrow>
   set_units c ''bohr'' self s =
     Returns (self\<lparr>units := ''bohr''\<rparr>,
      s\<lparr>cell := (cell s)(coordinates self := map (map (\<lambda>x. x / c)) (cell s (coordinates self)))\<rparr>)"
  by (simp add: set_units_def itruediv_def)

lemma set_units_int64:
  "units self = ''bohr'' \<Longrightarrow> dtype_of s (coordinates self) = Int64 \<Longrightarrow>
   set_units c ''angstrom'' self s = Raises TypeError (self\<lparr>units := ''angstrom''\<rparr>, s)"
  "units self = ''angstrom'' \<Longrightarrow> dtype_of s (coordinates self) = Int64 \<Longrightarrow>
   set_units c ''bohr'' self s = Raises TypeError (self\<lparr>units := ''bohr''\<rparr>, s)"
  by (simp_all add: set_units_def imul_def itruediv_def)

lemma set_units_same:
  "units self = target \<Longrightarrow> set_units c target self s = Returns (self, s)"
  by (auto simp: set_units_def)

text \<open>Whatever the outcome of \<^verbatim>\<open>set_units\<close>, only the units of the object and
  the entries of its own array can have changed.\<close>

lemma set_units_frame:
  assumes "state_of (set_units c t self s) = (m', s')"
  shows "labels m' = labels self" "masses m' = masses self" "natom m' = natom self"
    "coordinates m' = coordinates self" "fresh s' = fresh s" "dtype_of s' = dtype_of s"
    "length (cell s' p) = length (cell s p)"
    "p \<noteq> coordinates self \<Longrightarrow> cell s' p = cell s p"
  using assms
  by (auto simp: set_units_def imul_def itruediv_def Let_def split: if_splits)

lemma copy_valid:
  assumes "units self = ''angstrom'' \<or> units self = ''bohr''"
    and "\<forall>l \<in> set (labels self). get_mass l \<noteq> None"
  shows "\<exists>ms. length ms = length (labels self) \<and> copy get_mass self s =
     Inr (\<lparr>labels = labels self, coordinates = Suc (fresh s), units = units self, masses = ms,
           natom = length (labels self)\<rparr>,
          s\<lparr>cell := (cell s)(fresh s := cell s (coordinates self),
                              Suc (fresh s) := cell s (coordinates self)),
            dtype_of := (dtype_of s)(fresh s := dtype_of s (coordinates self),
                                      Suc (fresh s) := dtype_of s (coordinates self)),
            fresh := Suc (Suc (fresh s))\<rparr>)"
  using assms by (auto simp: copy_def alloc_def init_def Let_def get_masses_known)

lemma copy_Inr:
  "copy get_mass self s = Inr (m, s2) \<Longrightarrow>
     labels m = labels self \<and> coordinates m = Suc (fresh s)
     \<and> length (masses m) = length (labels self)
     \<and> s2 = s\<lparr>cell := (cell s)(fresh s := cell s (coordinates self),
                                  Suc (fresh s) := cell s (coordinates self)),
                dtype_of := (dtype_of s)(fresh s := dtype_of s (coordinates self),
                                          Suc (fresh s) := dtype_of s (coordinates self)),
                fresh := Suc (Suc (fresh s))\<rparr>"
  by (auto simp: copy_def alloc_def Let_def dest!: init_Inr get_masses_length)

subsection \<open>The constructor\<close>

text \<open>
  Claim C3. When every label is known to the mass table, the constructor
  lower-cases the units argument and succeeds exactly when the lower-cased value
  is \<open>angstrom\<close> or \<open>bohr\<close>; the object then holds the lower-cased value, the
  labels, a mass for every label, the atom count and a new array with the given
  coordinates. For every other units string it fails with \<open>InvalidUnitsError\<close>.
\<close>

theorem init_units:
  assumes "\<forall>l \<in> set ls. get_mass l \<noteq> None"
  shows "\<exists>ms. list_all2 (\<lambda>l w. get_mass l = Some w) ls ms \<and>
     init get_mass ls dt cs us s =
       (if lower us = ''angstrom'' \<or> lower us = ''bohr'' then
          Inr (\<lparr>labels = ls, coordinates = fresh s, units = lower us, masses = ms,
                natom = length ls\<rparr>, snd (alloc dt cs s))
        else Inl InvalidUnitsError)"
proof -
  from assms have m: "get_masses get_mass ls = Inr (map (\<lambda>l. the (get_mass l)) ls)"
    by (rule get_masses_known)
  from assms have "list_all2 (\<lambda>l w. get_mass l = Some w) ls (map (\<lambda>l. the (get_mass l)) ls)"
    by (induction ls) auto
  moreover have "init get_mass ls dt cs us s =
       (if lower us = ''angstrom'' \<or> lower us = ''bohr'' then
          Inr (\<lparr>labels = ls, coordinates = fresh s, units = lower us,
                masses = map (\<lambda>l. the (get_mass l)) ls, natom = length ls\<rparr>,
               snd (alloc dt cs s))
        else Inl InvalidUnitsError)"
    by (simp add: init_def alloc_def m)
  ultimately show ?thesis by blast
qed

theorem init_units_witness:
  "init example_masses water_labels Float64 water_coordinates ''Bohr'' empty_store =
     Inr (water\<lparr>units := ''bohr''\<rparr>, water_store)
   \<and> init example_masses water_labels Float64 water_coordinates ''Meters'' empty_store =
     Inl InvalidUnitsError"
proof -
  have l1: "lower ''Bohr'' = ''bohr''" and l2: "lower ''Meters'' = ''meters''"
    by (simp_all add: lower_def lower_char_def)
  from init_units [OF water_labels_known, of Float64 water_coordinates "''Bohr''" empty_store]
  obtain ms where ms: "list_all2 (\<lambda>l w. example_masses l = Some w) water_labels ms"
    and eq: "init example_masses water_labels Float64 water_coordinates ''Bohr'' empty_store =
       Inr (\<lparr>labels = water_labels, coordinates = fresh (empty_store :: real store),
             units = ''bohr'', masses = ms, natom = length water_labels\<rparr>,
            snd (alloc Float64 water_coordinates empty_store))"
    by (auto simp: l1)
  from ms have "ms = [16, 1, 1]"
    by (auto simp: water_labels_def list_all2_Cons1 example_masses_simps)
  with eq have a: "init example_masses water_labels Float64 water_coordinates ''Bohr'' empty_store =
     Inr (water\<lparr>units := ''bohr''\<rparr>, water_store)"
    by (simp add: empty_store_def water_labels_def water_def water_store_def alloc_def
        fun_upd_idem)
  from init_units [OF water_labels_known, of Float64 water_coordinates "''Meters''" empty_store]
  have b: "init example_masses water_labels Float64 water_coordinates ''Meters'' empty_store =
     Inl InvalidUnitsError"
    by (auto simp: l2)
  from a b show ?thesis by simp
qed

text \<open>
  Claim C10. The masses are looked up before the units are tested: when some
  label is unknown to the mass table, construction fails with the lookup error
  of the first unknown label, whatever the units argument is, and never with
  \<open>InvalidUnitsError\<close>.
\<close>

theorem init_mass_lookup_first:
  assumes "l \<in> set ls" and "get_mass l = None"
  shows "\<exists>k. find (\<lambda>l. get_mass l = None) ls = Some k
           \<and> init get_mass ls dt cs us s = Inl (UnknownSymbolError k)
           \<and> init get_mass ls dt cs us s \<noteq> Inl InvalidUnitsError"
proof -
  from assms have "\<exists>k. find (\<lambda>l. get_mass l = None) ls = Some k
      \<and> get_masses get_mass ls = Inl (UnknownSymbolError k)"
    by (induction ls) (auto split: option.splits sum.splits)
  then show ?thesis by (auto simp: init_def alloc_def)
qed

theorem init_mass_lookup_first_witness:
  "init example_masses [''H'', ''Xx'', ''Yy''] Float64 water_coordinates ''meters'' empty_store
     = Inl (UnknownSymbolError ''Xx'')"
  using init_mass_lookup_first [of "''Xx''" "[''H'', ''Xx'', ''Yy'']" example_masses
      Float64 water_coordinates "''meters''" empty_store]
  by (simp add: example_masses_simps)

text \<open>
  The claim C4 as it is written (every constructed Molecule has as many
  coordinate rows as labels) fails: the constructor does not compare the two
  counts, and two labels with one coordinate row construct an object.
\<close>

theorem init_shape_counterexample:
  "case init example_masses [''H'', ''H''] Int64 [[0, 0, 0]] ''angstrom''
          (empty_store :: real store) of
     Inl e \<Rightarrow> False
   | Inr (m, s) \<Rightarrow>
       length (labels m) = 2 \<and> length (cell s (coordinates m)) = 1 \<and> \<not> shape_ok m s"
  by (simp add: init_def alloc_def empty_store_def example_masses_def shape_ok_def)

text \<open>
  Claim C4, amended. Every constructed object has as many masses as labels and
  \<open>natom\<close> equal to their number, and its array is the coordinates argument; so
  the invariant \<open>shape_ok\<close> (as many rows and masses as labels) holds after
  construction exactly when the arguments had as many rows as labels. Where it
  holds it is preserved by \<^verbatim>\<open>set_units\<close>, whether it returns or raises, and by
  \<^verbatim>\<open>copy\<close> (for the copy and for the original), and iteration then yields every
  label with its row. Iteration and stringification return no object and no
  store.
\<close>

theorem shape_invariant:
  fixes s :: "'a::{times,inverse} store" and get_mass :: "string \<Rightarrow> 'm option"
  shows
  "(\<forall>m s1. init get_mass ls dt cs us s = Inr (m, s1) \<longrightarrow>
       labels m = ls \<and> length (masses m) = length ls \<and> natom m = length ls
       \<and> cell s1 (coordinates m) = cs
       \<and> (shape_ok m s1 \<longleftrightarrow> length ls = length cs))
   \<and> (shape_ok self s \<longrightarrow>
        (case state_of (set_units c t self s) of (m', s') \<Rightarrow> shape_ok m' s'))
   \<and> (shape_ok self s \<and> coordinates self < fresh s \<longrightarrow>
        (\<forall>m' s'. copy get_mass self s = Inr (m', s') \<longrightarrow> shape_ok m' s' \<and> shape_ok self s'))
   \<and> (shape_ok self s \<longrightarrow>
        map fst (iter self s) = labels self \<and> map snd (iter self s) = cell s (coordinates self))"
proof -
  have 1: "\<forall>m s1. init get_mass ls dt cs us s = Inr (m, s1) \<longrightarrow>
       labels m = ls \<and> length (masses m) = length ls \<and> natom m = length ls
       \<and> cell s1 (coordinates m) = cs
       \<and> (shape_ok m s1 \<longleftrightarrow> length ls = length cs)"
    by (auto simp: shape_ok_def dest!: init_Inr get_masses_length)
  have 2: "shape_ok self s \<longrightarrow>
        (case state_of (set_units c t self s) of (m', s') \<Rightarrow> shape_ok m' s')"
  proof (cases "state_of (set_units c t self s)")
    case (Pair m' s')
    from set_units_frame(1,2,4) [OF Pair] set_units_frame(7) [OF Pair, of "coordinates self"]
    show ?thesis by (simp add: Pair shape_ok_def)
  qed
  have 3: "shape_ok self s \<and> coordinates self < fresh s \<longrightarrow>
        (\<forall>m' s'. copy get_mass self s = Inr (m', s') \<longrightarrow> shape_ok m' s' \<and> shape_ok self s')"
    by (auto simp: shape_ok_def dest!: copy_Inr)
  have 4: "shape_ok self s \<longrightarrow>
        map fst (iter self s) = labels self \<and> map snd (iter self s) = cell s (coordinates self)"
    by (simp add: shape_ok_def iter_def)
  from 1 2 3 4 show ?thesis by blast
qed

theorem shape_invariant_witness:
  "shape_ok water water_store
   \<and> (case state_of (set_units example_bohr2angstrom ''bohr'' water water_store) of
        (m', s') \<Rightarrow> shape_ok m' s')
   \<and> (case state_of (set_units example_bohr2angstrom ''angstrom'' h2 h2_store) of
        (m', s') \<Rightarrow> shape_ok m' s')
   \<and> (case copy example_masses water water_store of
        Inl e \<Rightarrow> False
      | Inr (m', s') \<Rightarrow> shape_ok m' s' \<and> shape_ok water s')
   \<and> map fst (iter water water_store) = water_labels"
proof -
  note inv = shape_invariant [of example_masses water_labels Float64 water_coordinates
      "''angstrom''" empty_store water example_bohr2angstrom "''bohr''"]
  have len: "length water_labels = length water_coordinates"
    by (simp add: water_labels_def water_coordinates_def)
  from inv init_water len have a: "shape_ok water water_store"
    by blast
  from copy_valid [of water example_masses water_store] water_labels_known
  obtain m' s' where c: "copy example_masses water water_store = Inr (m', s')"
    by (auto simp: water_simps)
  note inv' = shape_invariant [of example_masses water_labels Float64 water_coordinates
      "''angstrom''" water_store water example_bohr2angstrom "''bohr''"]
  from inv' a have b: "case state_of (set_units example_bohr2angstrom ''bohr'' water water_store) of
        (m', s') \<Rightarrow> shape_ok m' s'"
    by simp
  note inv2 = shape_invariant [of example_masses h2_labels Int64 h2_coordinates
      "''bohr''" empty_store h2 example_bohr2angstrom "''angstrom''"]
  have len2: "length h2_labels = length h2_coordinates"
    by (simp add: h2_labels_def h2_coordinates_def)
  from inv2 init_h2 len2 have a2: "shape_ok h2 h2_store"
    by blast
  note inv2' = shape_invariant [of example_masses h2_labels Int64 h2_coordinates
      "''bohr''" h2_store h2 example_bohr2angstrom "''angstrom''"]
  from inv2' a2 have b2: "case state_of (set_units example_bohr2angstrom ''angstrom'' h2 h2_store) of
        (m', s') \<Rightarrow> shape_ok m' s'"
    by simp
  from inv' a c have d: "shape_ok m' s' \<and> shape_ok water s'"
    by (simp add: water_simps)
  from inv' a have e: "map fst (iter water water_store) = water_labels"
    by (simp add: water_simps)
  from a b b2 c d e show ?thesis by simp
qed

subsection \<open>Unit conversion\<close>

text \<open>
  On a \<open>float64\<close> array \<^verbatim>\<open>set_units\<close> returns and converts units and
  entries together: from \<open>bohr\<close>, \<^verbatim>\<open>set_units('angstrom')\<close> sets the units to \<open>angstrom\<close> and
  multiplies every entry of the object's array by the constant; from
  \<open>angstrom\<close>, \<^verbatim>\<open>set_units('bohr')\<close> sets the units to \<open>bohr\<close> and divides
  every entry by it. Whatever the dtype, nothing changes when the object already
  has the target units. For the water molecule built in angstrom, entry
  \<open>[0][2]\<close> after \<^verbatim>\<open>set_units('bohr')\<close> is \<open>-0.0647162893 / bohr2angstrom\<close>.
\<close>

lemma set_units_float64:
  fixes c :: "'a::{times,inverse}" and b :: real
  shows
  "(units self = ''bohr'' \<and> dtype_of s (coordinates self) = Float64 \<longrightarrow>
      (\<exists>self' s'. set_units c ''angstrom'' self s = Returns (self', s')
         \<and> units self' = ''angstrom''
         \<and> coordinates self' = coordinates self
         \<and> cell s' (coordinates self') = map (map (\<lambda>x. x * c)) (cell s (coordinates self))))
   \<and> (units self = ''angstrom'' \<and> dtype_of s (coordinates self) = Float64 \<longrightarrow>
      (\<exists>self' s'. set_units c ''bohr'' self s = Returns (self', s')
         \<and> units self' = ''bohr''
         \<and> coordinates self' = coordinates self
         \<and> cell s' (coordinates self') = map (map (\<lambda>x. x / c)) (cell s (coordinates self))))
   \<and> (units self = target \<longrightarrow> set_units c target self s = Returns (self, s))
   \<and> (case init example_masses water_labels Float64 water_coordinates ''angstrom'' empty_store of
         Inl e \<Rightarrow> False
       | Inr (w, sw) \<Rightarrow>
           (case set_units b ''bohr'' w sw of
              Raises e st \<Rightarrow> False
            | Returns (w', sw') \<Rightarrow> cell sw' (coordinates w') ! 0 ! 2 = - 0.0647162893 / b))"
proof -
  have 1: "units self = ''bohr'' \<and> dtype_of s (coordinates self) = Float64 \<longrightarrow>
      (\<exists>self' s'. set_units c ''angstrom'' self s = Returns (self', s')
         \<and> units self' = ''angstrom''
         \<and> coordinates self' = coordinates self
         \<and> cell s' (coordinates self') = map (map (\<lambda>x. x * c)) (cell s (coordinates self)))"
    by (simp add: set_units_to_angstrom)
  have 2: "units self = ''angstrom'' \<and> dtype_of s (coordinates self) = Float64 \<longrightarrow>
      (\<exists>self' s'. set_units c ''bohr'' self s = Returns (self', s')
         \<and> units self' = ''bohr''
         \<and> coordinates self' = coordinates self
         \<and> cell s' (coordinates self') = map (map (\<lambda>x. x / c)) (cell s (coordinates self)))"
    by (simp add: set_units_to_bohr)
  have 3: "units self = target \<longrightarrow> set_units c target self s = Returns (self, s)"
    by (simp add: set_units_same)
  have 4: "(case init example_masses water_labels Float64 water_coordinates ''angstrom'' empty_store of
         Inl e \<Rightarrow> False
       | Inr (w, sw) \<Rightarrow>
           (case set_units b ''bohr'' w sw of
              Raises e st \<Rightarrow> False
            | Returns (w', sw') \<Rightarrow> cell sw' (coordinates w') ! 0 ! 2 = - 0.0647162893 / b))"
    by (simp add: init_water set_units_to_bohr water_simps) (simp add: water_coordinates_def)
  from 1 2 3 4 show ?thesis by blast
qed

text \<open>
  Claim C2 says this of every Molecule. The code at a molecule built from
  integer coordinates, \<^verbatim>\<open>Molecule(('H', 'H'), [[0, 0, 0], [0, 0, 1]], 'bohr')\<close>:
  the constructor succeeds and the array is \<open>int64\<close>; in
  \<^verbatim>\<open>set_units('angstrom')\<close> line 53 assigns the units, then line 54 raises.
  The object is left with units \<open>angstrom\<close> and its coordinates as they were.
\<close>

theorem set_units_int64_raises:
  "init example_masses h2_labels Int64 h2_coordinates ''bohr'' empty_store = Inr (h2, h2_store)
   \<and> set_units example_bohr2angstrom ''angstrom'' h2 h2_store
       = Raises TypeError (h2\<lparr>units := ''angstrom''\<rparr>, h2_store)
   \<and> units (h2\<lparr>units := ''angstrom''\<rparr>) = ''angstrom''
   \<and> cell h2_store (coordinates h2) = h2_coordinates"
  by (simp add: init_h2 set_units_int64 h2_simps)

text \<open>
  Claim C5. For a target that is neither \<open>angstrom\<close> nor \<open>bohr\<close>,
  \<^verbatim>\<open>set_units\<close> returns the object and the store as they were: no error, no
  field and no array changed.
\<close>

theorem set_units_other_target:
  "target \<noteq> ''angstrom'' \<Longrightarrow> target \<noteq> ''bohr'' \<Longrightarrow>
     set_units c target self s = Returns (self, s)"
  by (simp add: set_units_def)

theorem set_units_other_target_witness:
  "set_units example_bohr2angstrom ''meters'' water water_store = Returns (water, water_store)"
  using set_units_other_target [of "''meters''" example_bohr2angstrom water water_store]
  by simp

text \<open>
  Converting there and back on a \<open>float64\<close> array in \<open>angstrom\<close>: both calls
  return, the units are \<open>angstrom\<close> again, the object is on the same array,
  and every entry \<open>x\<close> has become \<open>x / c * c\<close> in the arithmetic of the array.
  How far that is from \<open>x\<close> is a matter of floating-point rounding and
  overflow, which this model does not contain.
\<close>

lemma set_units_there_and_back:
  fixes c :: "'a::{times,inverse}"
  assumes "units self = ''angstrom''" and "dtype_of s (coordinates self) = Float64"
  shows "\<exists>m1 s1 m2 s2.
      set_units c ''bohr'' self s = Returns (m1, s1)
      \<and> set_units c ''angstrom'' m1 s1 = Returns (m2, s2)
      \<and> units m2 = ''angstrom'' \<and> coordinates m2 = coordinates self
      \<and> cell s2 (coordinates m2) = map (map (\<lambda>x. x / c * c)) (cell s (coordinates self))"
  using assms by (simp add: set_units_to_bohr set_units_to_angstrom comp_def)

subsection \<open>Replacing the coordinates\<close>

text \<open>
  Claim C8. \<^verbatim>\<open>set_coordinates(c)\<close> makes the object refer to \<open>c\<close> and keeps the
  units; \<^verbatim>\<open>set_coordinates(c, u)\<close> makes it refer to \<open>c\<close> and sets the units
  to \<open>u\<close>. In both cases the array read through the object is \<open>c\<close> as it stands
  in the store (no value is converted), and labels, masses and atom count are
  unchanged.
\<close>

theorem set_coordinates_replaces:
  "coordinates (set_coordinates c None self) = c
   \<and> units (set_coordinates c None self) = units self
   \<and> coordinates (set_coordinates c (Some u) self) = c
   \<and> units (set_coordinates c (Some u) self) = u
   \<and> cell s (coordinates (set_coordinates c us self)) = cell s c
   \<and> labels (set_coordinates c us self) = labels self
   \<and> masses (set_coordinates c us self) = masses self
   \<and> natom (set_coordinates c us self) = natom self"
  by (simp add: set_coordinates_def)

text \<open>
  Claim C9. \<^verbatim>\<open>set_coordinates(c, u)\<close> stores any string \<open>u\<close> as the units,
  verbatim: it is not lower-cased and not validated, so afterwards the units
  need not be one of the two valid literals (\<open>meters\<close> stays \<open>meters\<close>, \<open>Bohr\<close>
  stays \<open>Bohr\<close>). The function has no failing branch.
\<close>

theorem set_coordinates_units_verbatim:
  "units (set_coordinates c (Some u) self) = u
   \<and> coordinates (set_coordinates c (Some u) self) = c
   \<and> units (set_coordinates c (Some ''meters'') self) \<noteq> ''angstrom''
   \<and> units (set_coordinates c (Some ''meters'') self) \<noteq> ''bohr''
   \<and> units (set_coordinates c (Some ''Bohr'') self) = ''Bohr''"
  by (simp add: set_coordinates_def)

subsection \<open>Copies\<close>

text \<open>
  The claim C7 as it is written (for every Molecule, \<^verbatim>\<open>copy()\<close> returns a
  Molecule with the same units) fails for an object whose units were overwritten
  by \<^verbatim>\<open>set_coordinates\<close> with a string the constructor refuses: \<^verbatim>\<open>copy\<close>
  calls the constructor, which raises.
\<close>

theorem copy_invalid_units_counterexample:
  "case init example_masses water_labels Float64 water_coordinates ''angstrom'' empty_store of
     Inl e \<Rightarrow> False
   | Inr (w, sw) \<Rightarrow>
       copy example_masses (set_coordinates (coordinates w) (Some ''meters'') w) sw
         = Inl InvalidUnitsError"
  by (simp add: init_water)
     (simp add: copy_def alloc_def init_def set_coordinates_def water_def water_labels_def
        example_masses_def lower_def lower_char_def)

text \<open>
  Claim C7, amended. For an object whose units are \<open>angstrom\<close> or \<open>bohr\<close> (and
  whose labels the mass table knows, as those of every constructed object are),
  living in a store that holds its array, \<^verbatim>\<open>copy()\<close> returns an object with
  the same labels and the same units on a new array with the same contents and
  dtype; the original's array is untouched by the copy, by any write of an entry
  of the copy's array, and by any \<^verbatim>\<open>set_units\<close> on the copy, whether it
  returns or raises.
\<close>

theorem copy_independent:
  fixes get_mass :: "string \<Rightarrow> 'm option" and s :: "'a::{times,inverse} store"
  assumes "units self = ''angstrom'' \<or> units self = ''bohr''"
    and "\<forall>l \<in> set (labels self). get_mass l \<noteq> None"
    and "coordinates self < fresh s"
  shows "\<exists>self' s'. copy get_mass self s = Inr (self', s')
      \<and> labels self' = labels self \<and> units self' = units self
      \<and> coordinates self' \<noteq> coordinates self
      \<and> cell s' (coordinates self') = cell s (coordinates self)
      \<and> dtype_of s' (coordinates self') = dtype_of s (coordinates self)
      \<and> cell s' (coordinates self) = cell s (coordinates self)
      \<and> (\<forall>i j v s''. setitem (coordinates self') i j v s' = Inr s''
            \<longrightarrow> cell s'' (coordinates self) = cell s (coordinates self))
      \<and> (\<forall>c t. cell (snd (state_of (set_units c t self' s'))) (coordinates self)
            = cell s (coordinates self))"
proof -
  from copy_valid [OF assms(1) assms(2), of s]
  obtain ms where c: "copy get_mass self s =
     Inr (\<lparr>labels = labels self, coordinates = Suc (fresh s), units = units self, masses = ms,
           natom = length (labels self)\<rparr>,
          s\<lparr>cell := (cell s)(fresh s := cell s (coordinates self),
                              Suc (fresh s) := cell s (coordinates self)),
            dtype_of := (dtype_of s)(fresh s := dtype_of s (coordinates self),
                                      Suc (fresh s) := dtype_of s (coordinates self)),
            fresh := Suc (Suc (fresh s))\<rparr>)"
    by blast
  from assms(3) have ne: "coordinates self \<noteq> Suc (fresh s)" "coordinates self \<noteq> fresh s"
    by auto
  show ?thesis
    unfolding c using ne
    by (auto simp: setitem_def set_units_def imul_def itruediv_def Let_def split: if_splits)
qed

theorem copy_independent_witness:
  "case copy example_masses water water_store of
     Inl e \<Rightarrow> False
   | Inr (w', s') \<Rightarrow>
       labels w' = water_labels \<and> units w' = ''angstrom'' \<and> coordinates w' \<noteq> 0
       \<and> cell s' (coordinates w') = water_coordinates
       \<and> (case setitem (coordinates w') 0 2 1 s' of
             Inl e \<Rightarrow> False
           | Inr s'' \<Rightarrow> cell s'' 0 = water_coordinates \<and> cell s'' (coordinates w') ! 0 ! 2 = 1)"
proof -
  from copy_independent [of water example_masses water_store] water_labels_known
  obtain w' s' where c: "copy example_masses water water_store = Inr (w', s')"
    and p: "labels w' = water_labels" "units w' = ''angstrom''" "coordinates w' \<noteq> 0"
      "cell s' (coordinates w') = water_coordinates"
    and q: "\<forall>i j v s''. setitem (coordinates w') i j v s' = Inr s''
            \<longrightarrow> cell s'' 0 = water_coordinates"
    by (auto simp: water_simps)
  have len: "0 < length water_coordinates" "2 < length (water_coordinates ! 0)"
    by (simp_all add: water_coordinates_def)
  define s'' where "s'' = s'\<lparr>cell := (cell s')(coordinates w' :=
      water_coordinates[0 := (water_coordinates ! 0)[2 := 1]])\<rparr>"
  have r: "setitem (coordinates w') 0 2 1 s' = Inr s''"
    using len by (simp add: setitem_def p s''_def)
  from q r have a: "cell s'' 0 = water_coordinates"
    by blast
  have b: "cell s'' (coordinates w') ! 0 ! 2 = 1"
    using len by (simp add: s''_def)
  show ?thesis
    using p(3) by (simp add: c p(1,2,4) r a b)
qed

subsection \<open>From a molecule to text and back\<close>

text \<open>Tokens, lines and the text of \<^verbatim>\<open>str\<close>.\<close>

lemma is_space_simps [simp]: "is_space CHR '' ''" "is_space newline"
  by (simp_all add: is_space_def)

lemma is_token_no_space: "is_token t \<Longrightarrow> c \<in> set t \<Longrightarrow> \<not> is_space c"
  by (simp add: is_token_def list_all_iff)

lemma is_token_no_newline: "is_token t \<Longrightarrow> newline \<notin> set t"
  using is_token_no_space by fastforce

lemma split_from_word:
  "list_all (\<lambda>c. \<not> is_space c) t \<Longrightarrow> split_from w (t @ r) = split_from (w @ t) r"
  by (induction t arbitrary: w) auto

lemma split_from_spaces:
  "split_from [] (replicate n CHR '' '' @ r) = split_from [] r"
  by (induction n) auto

lemma split_from_token_space:
  "is_token t \<Longrightarrow> split_from [] (t @ CHR '' '' # r) = t # split_from [] r"
  by (simp add: split_from_word is_token_def)

lemma split_from_token_end:
  "is_token t \<Longrightarrow> split_from [] t = [t]"
  using split_from_word [of t "[]" "[]"] by (simp add: is_token_def)

lemma fmt_body:
  "fmt fixed10 l x y z =
     (l @ CHR '' '' # replicate (2 - length l) CHR '' ''
        @ replicate (15 - length (fixed10 x)) CHR '' '' @ fixed10 x
        @ CHR '' '' # replicate (15 - length (fixed10 y)) CHR '' '' @ fixed10 y
        @ CHR '' '' # replicate (15 - length (fixed10 z)) CHR '' '' @ fixed10 z) @ [newline]"
  by (simp add: fmt_def ljust_def rjust_def replicate_append_same)

lemma split_fmt_body:
  assumes "is_token l" "is_token a" "is_token b" "is_token c"
  shows "split (l @ CHR '' '' # replicate i CHR '' ''
        @ replicate j CHR '' '' @ a
        @ CHR '' '' # replicate k CHR '' '' @ b
        @ CHR '' '' # replicate n CHR '' '' @ c) = [l, a, b, c]"
  using assms
  by (simp add: split_def split_from_token_space split_from_spaces split_from_token_end)

lemma lines_from_line:
  "newline \<notin> set l' \<Longrightarrow> lines_from l (l' @ newline # r) = (l @ l') # lines_from [] r"
  by (induction l' arbitrary: l) auto

lemma lines_from_concat:
  "\<forall>L \<in> set Ls. newline \<notin> set L \<Longrightarrow>
     lines_from [] (concat (map (\<lambda>L. L @ [newline]) Ls)) = Ls"
  by (induction Ls) (auto simp: lines_from_line)

lemma atom_line_eq:
  "atom_line fixed10 (l, r) =
     l @ CHR '' '' # replicate (2 - length l) CHR '' ''
        @ replicate (15 - length (fixed10 (r ! 0))) CHR '' '' @ fixed10 (r ! 0)
        @ CHR '' '' # replicate (15 - length (fixed10 (r ! 1))) CHR '' '' @ fixed10 (r ! 1)
        @ CHR '' '' # replicate (15 - length (fixed10 (r ! 2))) CHR '' '' @ fixed10 (r ! 2)"
  by (simp only: atom_line_def fmt_body prod.case butlast_snoc)

lemma fmt_atom_line:
  "fmt fixed10 l (r ! 0) (r ! 1) (r ! 2) = atom_line fixed10 (l, r) @ [newline]"
  by (simp only: atom_line_eq fmt_body)

lemma length_3:
  "length r = 3 \<Longrightarrow> \<exists>x y z. r = [x, y, z]"
  by (auto simp: numeral_3_eq_3 length_Suc_conv)

lemma split_atom_line:
  assumes "is_token l" "length r = 3" "\<forall>x \<in> set r. is_token (fixed10 x)"
  shows "split (atom_line fixed10 (l, r)) = atom_tokens fixed10 (l, r)"
proof -
  from assms(2) obtain x y z where r: "r = [x, y, z]"
    using length_3 by blast
  with assms have "is_token l" "is_token (fixed10 (r ! 0))" "is_token (fixed10 (r ! 1))"
    "is_token (fixed10 (r ! 2))"
    by simp_all
  then show ?thesis
    by (simp only: atom_line_eq atom_tokens_def prod.case split_fmt_body)
qed

lemma newline_atom_line:
  assumes "is_token l" "length r = 3" "\<forall>x \<in> set r. is_token (fixed10 x)"
  shows "newline \<notin> set (atom_line fixed10 (l, r))"
proof -
  from assms(2) obtain x y z where r: "r = [x, y, z]"
    using length_3 by blast
  with assms show ?thesis
    by (auto simp: atom_line_eq dest: is_token_no_newline)
qed

lemma str_loop_closed:
  "\<forall>(l, r) \<in> set rows. length r = 3 \<Longrightarrow>
     str_loop fixed10 ret rows =
       Inr (ret @ concat (map (\<lambda>(l, r). fmt fixed10 l (r ! 0) (r ! 1) (r ! 2)) rows))"
proof (induction rows arbitrary: ret)
  case Nil
  then show ?case by simp
next
  case (Cons lr rows)
  obtain l r where lr: "lr = (l, r)" by (cases lr)
  with Cons.prems have "length r = 3" by simp
  then obtain x y z where r: "r = [x, y, z]"
    using length_3 by blast
  from Cons.prems have "\<forall>(l, r) \<in> set rows. length r = 3" by simp
  from Cons.IH [OF this] show ?case
    by (simp add: lr r format_line_def)
qed

lemma fmt_fun:
  "(\<lambda>(l, r). fmt fixed10 l (r ! 0) (r ! 1) (r ! 2)) = (\<lambda>lr. atom_line fixed10 lr @ [newline])"
proof (rule ext)
  fix lr :: "string \<times> 'a list"
  obtain l r where "lr = (l, r)" by (cases lr)
  then show "(case lr of (l, r) \<Rightarrow> fmt fixed10 l (r ! 0) (r ! 1) (r ! 2))
      = atom_line fixed10 lr @ [newline]"
    by (simp only: prod.case fmt_atom_line)
qed

lemma is_token_units: "is_token ''units''" "is_token ''angstrom''" "is_token ''bohr''"
  by (simp_all add: is_token_def is_space_def)

lemma text_lines:
  assumes u: "is_token u"
    and rows: "\<forall>(l, r) \<in> set rows. is_token l \<and> length r = 3 \<and> (\<forall>x \<in> set r. is_token (fixed10 x))"
  shows "map split (splitlines (''units '' @ u @ [newline]
            @ concat (map (\<lambda>(l, r). fmt fixed10 l (r ! 0) (r ! 1) (r ! 2)) rows)))
         = [''units'', u] # map (atom_tokens fixed10) rows"
proof -
  have tx: "''units '' @ u @ [newline]
            @ concat (map (\<lambda>(l, r). fmt fixed10 l (r ! 0) (r ! 1) (r ! 2)) rows)
      = concat (map (\<lambda>L. L @ [newline]) ((''units '' @ u) # map (atom_line fixed10) rows))"
    unfolding fmt_fun by (simp add: comp_def)
  have nl: "\<forall>L \<in> set ((''units '' @ u) # map (atom_line fixed10) rows). newline \<notin> set L"
  proof -
    have "newline \<notin> set (atom_line fixed10 lr)" if "lr \<in> set rows" for lr
    proof -
      obtain l r where lr: "lr = (l, r)" by (cases lr)
      with rows that have "is_token l" "length r = 3" "\<forall>x \<in> set r. is_token (fixed10 x)"
        by auto
      then show ?thesis unfolding lr by (rule newline_atom_line)
    qed
    moreover have "newline \<notin> set (''units '' @ u)"
      using u by (auto dest: is_token_no_newline)
    ultimately show ?thesis by auto
  qed
  have first: "split (''units '' @ u) = [''units'', u]"
    using u split_from_token_space [OF is_token_units(1), of u]
    by (simp add: split_def split_from_token_end)
  have rest: "map split (map (atom_line fixed10) rows) = map (atom_tokens fixed10) rows"
  proof -
    have "split (atom_line fixed10 lr) = atom_tokens fixed10 lr" if "lr \<in> set rows" for lr
    proof -
      obtain l r where lr: "lr = (l, r)" by (cases lr)
      with rows that have "is_token l" "length r = 3" "\<forall>x \<in> set r. is_token (fixed10 x)"
        by auto
      then show ?thesis unfolding lr by (rule split_atom_line)
    qed
    then show ?thesis by simp
  qed
  show ?thesis
    unfolding tx splitlines_def lines_from_concat [OF nl]
    using first rest by simp
qed

lemma is_units_line_simps:
  "is_units_line [''units'', u]" "\<not> is_units_line (atom_tokens fixed10 lr)"
  "atom_tokens fixed10 lr \<noteq> []"
  by (simp_all add: is_units_line_def atom_tokens_def split: prod.splits)

lemma collect_labels:
  "collect line_label (map (atom_tokens fixed10) rows) = Inr (map fst rows)"
  by (induction rows) (auto simp: line_label_def atom_tokens_def)

lemma collect_coordinates:
  assumes "\<forall>(l, r) \<in> set rows. length r = 3 \<and> (\<forall>x \<in> set r. to_float (fixed10 x) = Some (g x))"
  shows "collect (line_coordinates to_float) (map (atom_tokens fixed10) rows)
           = Inr (map (\<lambda>(l, r). map g r) rows)"
  using assms
proof (induction rows)
  case Nil
  then show ?case by simp
next
  case (Cons lr rows)
  obtain l r where lr: "lr = (l, r)" by (cases lr)
  with Cons.prems obtain x y z where r: "r = [x, y, z]"
    using length_3 by fastforce
  from Cons.prems have "to_float (fixed10 x) = Some (g x)" "to_float (fixed10 y) = Some (g y)"
    "to_float (fixed10 z) = Some (g z)"
    by (simp_all add: lr r)
  moreover from Cons have "collect (line_coordinates to_float) (map (atom_tokens fixed10) rows)
           = Inr (map (\<lambda>(l, r). map g r) rows)"
    by simp
  moreover have "line_coordinates to_float (atom_tokens fixed10 lr) = Inr [g x, g y, g z]"
    if "to_float (fixed10 x) = Some (g x)" "to_float (fixed10 y) = Some (g y)"
      "to_float (fixed10 z) = Some (g z)"
    using that by (simp add: lr r line_coordinates_def atom_tokens_def)
  ultimately show ?case
    by (simp add: lr r)
qed

lemma parse_text:
  assumes u: "is_token u"
    and rows: "\<forall>(l, r) \<in> set rows. is_token l \<and> length r = 3 \<and> (\<forall>x \<in> set r. is_token (fixed10 x))"
    and tx: "tx = ''units '' @ u @ [newline]
            @ concat (map (\<lambda>(l, r). fmt fixed10 l (r ! 0) (r ! 1) (r ! 2)) rows)"
  shows "extract_units tx = Some (lower u)"
    and "data_lines tx = map (atom_tokens fixed10) rows"
proof -
  have l: "map split (splitlines tx) = [''units'', u] # map (atom_tokens fixed10) rows"
    unfolding tx using u rows by (rule text_lines)
  show "extract_units tx = Some (lower u)"
    by (simp add: extract_units_def l is_units_line_simps)
  have "filter (\<lambda>toks. toks \<noteq> [] \<and> \<not> is_units_line toks) (map (atom_tokens fixed10) rows)
      = map (atom_tokens fixed10) rows"
    by (rule filter_True) (auto simp: is_units_line_simps)
  then show "data_lines tx = map (atom_tokens fixed10) rows"
    by (simp add: data_lines_def l is_units_line_simps)
qed

lemma str_then_from_string:
  assumes u: "is_token (units self)"
    and len: "length (cell s (coordinates self)) = length (labels self)"
    and num: "\<forall>row \<in> set (cell s (coordinates self)).
           length row = 3 \<and> (\<forall>x \<in> set row. representable fixed10 to_float close x)"
    and lab: "\<forall>l \<in> set (labels self). is_token l"
  shows "\<exists>tx. str fixed10 self s = Inr tx
      \<and> tx = ''units '' @ units self @ [newline]
             @ concat (map (\<lambda>(l, r). fmt fixed10 l (r ! 0) (r ! 1) (r ! 2))
                         (zip (labels self) (cell s (coordinates self))))
      \<and> from_string get_mass to_float tx s2 =
          init get_mass (labels self) Float64
            (map (map (\<lambda>x. the (to_float (fixed10 x)))) (cell s (coordinates self)))
            (lower (units self)) s2"
proof -
  define rows where "rows = zip (labels self) (cell s (coordinates self))"
  define g where "g = (\<lambda>x. the (to_float (fixed10 x)))"
  define tx where "tx = ''units '' @ units self @ [newline]
             @ concat (map (\<lambda>(l, r). fmt fixed10 l (r ! 0) (r ! 1) (r ! 2)) rows)"
  have fst_rows: "map fst rows = labels self" and snd_rows: "map snd rows = cell s (coordinates self)"
    using len by (simp_all add: rows_def)
  have in_rows: "l \<in> set (labels self) \<and> r \<in> set (cell s (coordinates self))"
    if "(l, r) \<in> set rows" for l r
    using that unfolding rows_def by (auto dest: set_zip_leftD set_zip_rightD)
  have r3: "\<forall>(l, r) \<in> set rows. length r = 3"
    using in_rows num by blast
  have toks: "\<forall>(l, r) \<in> set rows. is_token l \<and> length r = 3 \<and> (\<forall>x \<in> set r. is_token (fixed10 x))"
    using in_rows num lab by (fastforce simp: representable_def)
  have flo: "\<forall>(l, r) \<in> set rows. length r = 3 \<and> (\<forall>x \<in> set r. to_float (fixed10 x) = Some (g x))"
    using in_rows num by (fastforce simp: representable_def g_def split: option.splits)
  have s: "str fixed10 self s = Inr tx"
    by (simp add: str_def iter_def rows_def [symmetric] str_loop_closed [OF r3] tx_def)
  note p = parse_text [OF u toks tx_def]
  have ls: "extract_labels tx = Inr (labels self)"
    by (simp add: extract_labels_def p collect_labels fst_rows)
  have "map (\<lambda>(l, r). map g r) rows = map (map g) (map snd rows)"
    by (simp add: case_prod_unfold comp_def)
  then have cs: "extract_coordinates to_float tx = Inr (map (map g) (cell s (coordinates self)))"
    by (simp add: extract_coordinates_def p collect_coordinates [OF flo] snd_rows)
  have f: "from_string get_mass to_float tx s2 =
      init get_mass (labels self) Float64 (map (map g) (cell s (coordinates self)))
        (lower (units self)) s2"
    by (simp add: from_string_def from_coord_string_def p ls cs)
  show ?thesis
    using s f unfolding tx_def rows_def g_def by blast
qed

lemma representable_close:
  assumes "\<forall>row \<in> set a. \<forall>x \<in> set row. representable fixed10 to_float close x"
  shows "list_all2 (list_all2 close) a (map (map (\<lambda>x. the (to_float (fixed10 x)))) a)"
  using assms
  by (auto simp: list_all2_map2 representable_def split: option.splits
      intro!: list.rel_refl_strong)

lemma digit_char_props:
  "d < 10 \<Longrightarrow> is_digit (digit_char d) \<and> digit_val (digit_char d) = Some d"
proof -
  assume "d < 10"
  then have "d \<in> {0, 1, 2, 3, 4, 5, 6, 7, 8, 9}" by auto
  then show ?thesis
    by (auto simp: digit_char_def digit_val_def is_digit_def)
qed

lemma is_digit_props:
  "is_digit c \<Longrightarrow> \<not> is_space c \<and> c \<noteq> CHR ''.'' \<and> c \<noteq> CHR ''-''"
  by (auto simp: is_digit_def is_space_def)

lemma show_nat_digits: "list_all is_digit (show_nat n) \<and> show_nat n \<noteq> []"
proof (induction n rule: show_nat.induct)
  case (1 n)
  show ?case
  proof (cases "n < 10")
    case True
    then show ?thesis
      by (subst (1 2) show_nat.simps) (simp add: digit_char_props)
  next
    case False
    with 1 have "list_all is_digit (show_nat (n div 10))" by simp
    moreover have "is_digit (digit_char (n mod 10))" by (simp add: digit_char_props)
    ultimately show ?thesis
      using False by (subst (1 2) show_nat.simps) simp
  qed
qed

lemma digits_val_show_nat:
  "digits_val acc (show_nat n @ r) = digits_val (acc * 10 ^ length (show_nat n) + n) r"
proof (induction n arbitrary: acc r rule: show_nat.induct)
  case (1 n)
  show ?case
  proof (cases "n < 10")
    case True
    then have "show_nat n = [digit_char n]" by (subst show_nat.simps) simp
    with True show ?thesis by (simp add: digit_char_props mult.commute)
  next
    case False
    then have s: "show_nat n = show_nat (n div 10) @ [digit_char (n mod 10)]"
      by (subst show_nat.simps) simp
    have "digits_val acc (show_nat n @ r)
        = digits_val acc (show_nat (n div 10) @ digit_char (n mod 10) # r)"
      by (simp add: s)
    also have "\<dots> = digits_val (acc * 10 ^ length (show_nat (n div 10)) + n div 10)
        (digit_char (n mod 10) # r)"
      using False by (rule 1)
    also have "\<dots> = digits_val (10 * (acc * 10 ^ length (show_nat (n div 10)) + n div 10)
        + n mod 10) r"
      by (simp add: digit_char_props)
    also have "10 * (acc * 10 ^ length (show_nat (n div 10)) + n div 10) + n mod 10
        = acc * 10 ^ length (show_nat n) + n"
      by (simp add: s algebra_simps)
    finally show ?thesis .
  qed
qed

lemma digits_val_zeros:
  "digits_val acc (replicate k CHR ''0'' @ r) = digits_val (acc * 10 ^ k) r"
  by (induction k arbitrary: acc) (simp_all add: digit_val_def algebra_simps)

lemma length_show_nat: "0 < k \<Longrightarrow> n < 10 ^ k \<Longrightarrow> length (show_nat n) \<le> k"
proof (induction n arbitrary: k rule: show_nat.induct)
  case (1 n)
  show ?case
  proof (cases "n < 10")
    case True
    then have "show_nat n = [digit_char n]" by (subst show_nat.simps) simp
    with 1(2) show ?thesis by simp
  next
    case False
    then have s: "show_nat n = show_nat (n div 10) @ [digit_char (n mod 10)]"
      by (subst show_nat.simps) simp
    from 1(2) obtain j where k: "k = Suc j" by (cases k) auto
    from False 1(3) have "0 < j" unfolding k by (cases j) auto
    moreover from 1(3) have "n div 10 < 10 ^ j" unfolding k by (simp add: less_mult_imp_div_less mult.commute)
    ultimately have "length (show_nat (n div 10)) \<le> j"
      using False by (intro 1(1)) auto
    then show ?thesis by (simp add: s k)
  qed
qed

lemma digits_val_show_nat_0: "digits_val 0 (show_nat n) = Some n"
  using digits_val_show_nat [of 0 n "[]"] by simp

lemma length_zfill: "length w \<le> n \<Longrightarrow> length (zfill n w) = n"
  by (simp add: zfill_def)

lemma digits_val_zfill: "digits_val 0 (zfill k (show_nat n)) = Some n"
  using digits_val_zeros [of 0 "k - length (show_nat n)" "show_nat n"]
  by (simp add: zfill_def digits_val_show_nat_0)

lemma is_digit_0: "is_digit CHR ''0''"
  by (simp add: is_digit_def)

lemma zfill_digits: "list_all is_digit (zfill k (show_nat n))"
  using show_nat_digits [of n] by (auto simp: zfill_def list_all_iff is_digit_0)

lemma takeWhile_digits:
  "list_all is_digit ds \<Longrightarrow> takeWhile (\<lambda>c. c \<noteq> CHR ''.'') (ds @ CHR ''.'' # r) = ds"
  by (induction ds) (auto dest: is_digit_props)

lemma parse_unsigned:
  assumes "b < 10 ^ 10"
  shows "parse_float (show_nat a @ CHR ''.'' # zfill 10 (show_nat b))
           = Some (real a + real b / 10 ^ 10)"
proof -
  let ?w = "show_nat a @ CHR ''.'' # zfill 10 (show_nat b)"
  from show_nat_digits [of a] obtain c cs where c: "show_nat a = c # cs" "is_digit c"
    by (cases "show_nat a") auto
  then have neg: "\<not> (?w \<noteq> [] \<and> hd ?w = CHR ''-'')"
    by (auto dest: is_digit_props)
  have ip: "takeWhile (\<lambda>c. c \<noteq> CHR ''.'') ?w = show_nat a"
    using show_nat_digits [of a] by (simp add: takeWhile_digits)
  have len: "length (zfill 10 (show_nat b)) = 10"
    using assms by (intro length_zfill length_show_nat) auto
  show ?thesis
    unfolding parse_float_def Let_def using neg
    by (simp add: ip digits_val_show_nat_0 digits_val_zfill len show_nat_digits)
qed

lemma parse_signed:
  assumes "b < 10 ^ 10"
  shows "parse_float (CHR ''-'' # show_nat a @ CHR ''.'' # zfill 10 (show_nat b))
           = Some (- (real a + real b / 10 ^ 10))"
proof -
  let ?w = "show_nat a @ CHR ''.'' # zfill 10 (show_nat b)"
  have ip: "takeWhile (\<lambda>c. c \<noteq> CHR ''.'') ?w = show_nat a"
    using show_nat_digits [of a] by (simp add: takeWhile_digits)
  have len: "length (zfill 10 (show_nat b)) = 10"
    using assms by (intro length_zfill length_show_nat) auto
  show ?thesis
    unfolding parse_float_def Let_def
    by (simp add: ip digits_val_show_nat_0 digits_val_zfill len show_nat_digits)
qed

lemma digits_no_space: "list_all is_digit w \<Longrightarrow> list_all (\<lambda>c. \<not> is_space c) w"
  by (induction w) (simp_all add: is_digit_props)

lemma punct_no_space: "\<not> is_space CHR ''-''" "\<not> is_space CHR ''.''"
  by (simp_all add: is_space_def)

lemma format_10f_token: "is_token (format_10f x)"
proof -
  have "list_all (\<lambda>c. \<not> is_space c) (show_nat a @ CHR ''.'' # zfill 10 (show_nat b))" for a b
    using digits_no_space [OF conjunct1 [OF show_nat_digits [of a]]]
      digits_no_space [OF zfill_digits [of 10 b]]
    by (simp add: punct_no_space)
  then show ?thesis
    by (simp add: format_10f_def is_token_def punct_no_space)
qed

lemma round_half_even_close:
  assumes "0 \<le> y"
  shows "\<bar>y - real (round_half_even y)\<bar> \<le> 1 / 2"
proof -
  define f where "f = \<lfloor>y\<rfloor>"
  define d where "d = y - of_int f"
  from assms have f0: "0 \<le> f" by (simp add: f_def)
  have d: "0 \<le> d" "d < 1"
    unfolding d_def f_def by linarith+
  have y: "y = of_int f + d" by (simp add: d_def)
  show ?thesis
  proof (cases "d < 1 / 2 \<or> (d = 1 / 2 \<and> even f)")
    case True
    then have "round_half_even y = nat f"
      by (simp only: round_half_even_def Let_def f_def [symmetric] d_def [symmetric] if_True)
    then have "real (round_half_even y) = of_int f"
      using f0 by simp
    with True d y show ?thesis by auto
  next
    case False
    then have "round_half_even y = nat (f + 1)"
      by (simp only: round_half_even_def Let_def f_def [symmetric] d_def [symmetric] if_False)
    then have "real (round_half_even y) = of_int f + 1"
      using f0 by simp
    with False d y show ?thesis by auto
  qed
qed

lemma div_mod_real:
  fixes p :: nat
  assumes "0 < p"
  shows "real n / real p = real (n div p) + real (n mod p) / real p"
proof -
  have "real n = real (n div p * p + n mod p)"
    by (simp only: div_mult_mod_eq)
  also have "\<dots> = real (n div p) * real p + real (n mod p)"
    by (simp only: of_nat_add of_nat_mult)
  finally show ?thesis
    using assms by (simp add: add_divide_distrib)
qed

lemma scale_close:
  fixes X N p :: real
  assumes "\<bar>X * p - N\<bar> \<le> 1 / 2" and "0 < p"
  shows "\<bar>X - N / p\<bar> \<le> 1 / p"
proof -
  have "X - N / p = (X * p - N) / p"
    using assms(2) by (simp add: diff_divide_distrib)
  then have "\<bar>X - N / p\<bar> = \<bar>X * p - N\<bar> / p"
    using assms(2) by (simp add: abs_divide)
  also have "\<dots> \<le> (1 / 2) / p"
    using assms by (intro divide_right_mono) simp_all
  also have "\<dots> \<le> 1 / p"
    using assms(2) by (simp add: field_simps)
  finally show ?thesis .
qed

lemma split_value:
  "real (n div 10 ^ 10) + real (n mod 10 ^ 10) / 10 ^ 10 = real n / 10 ^ 10"
proof -
  have "real n / real (10 ^ 10) = real (n div 10 ^ 10) + real (n mod 10 ^ 10) / real (10 ^ 10)"
    by (rule div_mod_real) simp
  then show ?thesis
    by (simp only: of_nat_power of_nat_numeral)
qed

lemma scaled_close:
  "\<bar>\<bar>x\<bar> - real (scaled x) / 10 ^ 10\<bar> \<le> 1 / 10 ^ 10"
proof -
  have "0 \<le> \<bar>x\<bar> * 10 ^ 10" by simp
  then have "\<bar>\<bar>x\<bar> * 10 ^ 10 - real (round_half_even (\<bar>x\<bar> * 10 ^ 10))\<bar> \<le> 1 / 2"
    by (rule round_half_even_close)
  then have "\<bar>\<bar>x\<bar> * 10 ^ 10 - real (scaled x)\<bar> \<le> 1 / 2"
    by (simp only: scaled_def)
  then show ?thesis
    by (rule scale_close) simp
qed

lemma parse_format_10f:
  "\<exists>y. parse_float (format_10f x) = Some y \<and> \<bar>x - y\<bar> \<le> 1 / 10 ^ 10"
proof -
  define a where "a = scaled x div 10 ^ 10"
  define b where "b = scaled x mod 10 ^ 10"
  define v where "v = real a + real b / 10 ^ 10"
  have b: "b < 10 ^ 10" by (simp add: b_def)
  have "v = real (scaled x) / 10 ^ 10"
    unfolding v_def a_def b_def by (rule split_value)
  with scaled_close [of x] have close: "\<bar>\<bar>x\<bar> - v\<bar> \<le> 1 / 10 ^ 10"
    by (simp only:)
  have f: "format_10f x = (if x < 0 then ''-'' else []) @ show_nat a @ ''.'' @ zfill 10 (show_nat b)"
    by (simp only: format_10f_def a_def b_def)
  show ?thesis
  proof (cases "x < 0")
    case True
    have "format_10f x = CHR ''-'' # show_nat a @ CHR ''.'' # zfill 10 (show_nat b)"
      unfolding f using True by simp
    then have "parse_float (format_10f x) = Some (- v)"
      unfolding v_def using parse_signed [OF b, of a] by (simp only:)
    moreover from True have "x - (- v) = - (\<bar>x\<bar> - v)" by simp
    then have "\<bar>x - (- v)\<bar> = \<bar>\<bar>x\<bar> - v\<bar>" by (simp only: abs_minus)
    with close have "\<bar>x - (- v)\<bar> \<le> 1 / 10 ^ 10" by (simp only:)
    ultimately show ?thesis by blast
  next
    case False
    have "format_10f x = show_nat a @ CHR ''.'' # zfill 10 (show_nat b)"
      unfolding f using False by simp
    then have "parse_float (format_10f x) = Some v"
      unfolding v_def using parse_unsigned [OF b, of a] by (simp only:)
    moreover from False have "x - v = \<bar>x\<bar> - v" by simp
    with close have "\<bar>x - v\<bar> \<le> 1 / 10 ^ 10" by (simp only:)
    ultimately show ?thesis by blast
  qed
qed

lemma format_10f_representable:
  "representable format_10f parse_float close10 x"
  using parse_format_10f [of x] by (auto simp: representable_def format_10f_token close10_def)

lemma scaled_water:
  "scaled 0 = 0"
  "scaled (- 0.0647162893) = 647162893"
  "scaled (- 0.7490459967) = 7490459967"
  "scaled 0.7490459967 = 7490459967"
  "scaled 0.5135472375 = 5135472375"
  by (simp_all add: scaled_def round_half_even_def Let_def)

text \<open>A tie goes to the even neighbour: \<open>1/2048 = 0.00048828125\<close> is rendered
  as \<open>0.0004882812\<close>.\<close>

lemma scaled_tie:
  "scaled (1 / 2048) = 4882812"
  by (simp add: scaled_def round_half_even_def Let_def)

lemma show_nat_water:
  "show_nat 0 = ''0''"
  "show_nat 647162893 = ''647162893''"
  "show_nat 7490459967 = ''7490459967''"
  "show_nat 5135472375 = ''5135472375''"
  by (simp_all add: show_nat.simps digit_char_def)

lemma format_10f_water:
  "format_10f 0 = ''0.0000000000''"
  "format_10f (- 0.0647162893) = ''-0.0647162893''"
  "format_10f (- 0.7490459967) = ''-0.7490459967''"
  "format_10f 0.7490459967 = ''0.7490459967''"
  "format_10f 0.5135472375 = ''0.5135472375''"
  unfolding format_10f_def scaled_water
  by (simp_all add: show_nat_water zfill_def) (simp_all add: eval_nat_numeral)

lemma fmt_row:
  "(case (l, [x, y, z]) of (l, r) \<Rightarrow> fmt fixed10 l (r ! 0) (r ! 1) (r ! 2)) = fmt fixed10 l x y z"
  by simp

lemma water_text:
  "''units '' @ ''angstrom'' @ [newline]
     @ concat (map (\<lambda>(l, r). fmt format_10f l (r ! 0) (r ! 1) (r ! 2))
                 (zip water_labels water_coordinates))
   = water_str"
  unfolding water_labels_def water_coordinates_def water_str_def
  apply (simp only: zip_Cons_Cons zip_Nil list.map concat.simps fmt_row)
  apply (simp only: fmt_def format_10f_water)
  apply (simp add: ljust_def rjust_def eval_nat_numeral)
  done

lemma water_hyps:
  "length (cell water_store (coordinates water)) = length (labels water)"
  "\<forall>row \<in> set (cell water_store (coordinates water)). length row = 3
      \<and> (\<forall>x \<in> set row. representable format_10f parse_float close10 x)"
  "\<forall>l \<in> set (labels water). is_token l"
  by (simp_all add: water_simps format_10f_representable)
     (simp_all add: water_labels_def water_coordinates_def is_token_def is_space_def)

text \<open>
  The claim C1 as it is written (for every Molecule whose coordinates are
  representable, \<^verbatim>\<open>from_string(str(m))\<close> yields a Molecule with the same
  units) fails for the water molecule after \<^verbatim>\<open>set_coordinates\<close> has
  overwritten its units with \<open>meters\<close>: the text is written, and reading it
  back ends in the constructor's error.
\<close>

theorem str_from_string_invalid_units_counterexample:
  "case init example_masses water_labels Float64 water_coordinates ''angstrom'' empty_store of
     Inl e \<Rightarrow> False
   | Inr (w, sw) \<Rightarrow>
       (case str format_10f (set_coordinates (coordinates w) (Some ''meters'') w) sw of
          Inl e \<Rightarrow> False
        | Inr tx \<Rightarrow>
            list_all (list_all (representable format_10f parse_float close10))
              (cell sw (coordinates w))
            \<and> from_string example_masses parse_float tx sw = Inl InvalidUnitsError)"
proof -
  define m where "m = set_coordinates (coordinates water) (Some ''meters'') water"
  have m: "labels m = labels water" "coordinates m = coordinates water" "units m = ''meters''"
    by (simp_all add: m_def set_coordinates_def)
  have u: "is_token (units m)"
    by (simp add: m is_token_def is_space_def)
  have l: "lower ''meters'' = ''meters''"
    by (simp add: lower_def lower_char_def)
  from str_then_from_string [of m water_store format_10f parse_float
      close10 example_masses water_store] u water_hyps
  obtain tx where s: "str format_10f m water_store = Inr tx"
    and f: "from_string example_masses parse_float tx water_store =
          init example_masses (labels water) Float64
            (map (map (\<lambda>x. the (parse_float (format_10f x))))
               (cell water_store (coordinates water)))
            ''meters'' water_store"
    unfolding m l by blast
  have "init example_masses (labels water) Float64 cs ''meters'' water_store
      = Inl InvalidUnitsError"
    for cs :: "real ndarray"
    using water_labels_known
    by (simp add: init_def alloc_def l water_simps get_masses_known)
  moreover have "list_all (list_all (representable format_10f parse_float close10))
      (cell water_store (coordinates water))"
    by (simp add: list_all_iff format_10f_representable)
  ultimately show ?thesis
    using s f by (simp add: init_water m_def [symmetric])
qed

text \<open>
  Claim C1, amended. Let the units of the object be \<open>angstrom\<close> or \<open>bohr\<close>, let
  its array have one row of three numbers per label, every number representable
  in the format, and let every label be a token known to the mass table. Then
  \<^verbatim>\<open>str\<close> succeeds; its text is the line \<^verbatim>\<open>units <name>\<close> followed by one line
  per atom, which \<open>fmt\<close> lays out as the label padded to two characters and three
  right-aligned fixed-point numbers of width fifteen; and \<^verbatim>\<open>from_string\<close> on
  that text, in any store, succeeds with the same labels in the same order, the
  same units, and coordinates that are entry by entry close to the original ones.
  The closeness relation is that of \<open>representable\<close>; for the real-number
  rendering above it is \<open>close10\<close>, equality within \<open>1e-10\<close>, and every real
  number is representable (lemma \<open>format_10f_representable\<close>).
\<close>

theorem str_from_string_round_trip:
  assumes un: "units self = ''angstrom'' \<or> units self = ''bohr''"
    and len: "length (cell s (coordinates self)) = length (labels self)"
    and num: "\<forall>row \<in> set (cell s (coordinates self)).
           length row = 3 \<and> (\<forall>x \<in> set row. representable fixed10 to_float close x)"
    and lab: "\<forall>l \<in> set (labels self). is_token l \<and> get_mass l \<noteq> None"
  shows "\<exists>tx self' s'.
      str fixed10 self s = Inr tx
      \<and> tx = ''units '' @ units self @ [newline]
             @ concat (map (\<lambda>(l, r). fmt fixed10 l (r ! 0) (r ! 1) (r ! 2))
                         (zip (labels self) (cell s (coordinates self))))
      \<and> from_string get_mass to_float tx s2 = Inr (self', s')
      \<and> labels self' = labels self \<and> units self' = units self
      \<and> list_all2 (list_all2 close) (cell s (coordinates self)) (cell s' (coordinates self'))"
proof -
  let ?cs = "map (map (\<lambda>x. the (to_float (fixed10 x)))) (cell s (coordinates self))"
  have u: "is_token (units self)" and lu: "lower (units self) = units self"
    using un by (auto simp: is_token_units)
  from lab have tok: "\<forall>l \<in> set (labels self). is_token l"
    and known: "\<forall>l \<in> set (labels self). get_mass l \<noteq> None"
    by simp_all
  from str_then_from_string [OF u len num tok, of get_mass s2]
  obtain tx where s: "str fixed10 self s = Inr tx"
    and tx: "tx = ''units '' @ units self @ [newline]
             @ concat (map (\<lambda>(l, r). fmt fixed10 l (r ! 0) (r ! 1) (r ! 2))
                         (zip (labels self) (cell s (coordinates self))))"
    and f: "from_string get_mass to_float tx s2 =
        init get_mass (labels self) Float64 ?cs (units self) s2"
    unfolding lu by blast
  from init_valid [OF known un, of Float64 ?cs s2]
  obtain ms where i: "init get_mass (labels self) Float64 ?cs (units self) s2 =
     Inr (\<lparr>labels = labels self, coordinates = fresh s2, units = units self, masses = ms,
           natom = length (labels self)\<rparr>,
          s2\<lparr>cell := (cell s2)(fresh s2 := ?cs), dtype_of := (dtype_of s2)(fresh s2 := Float64),
             fresh := Suc (fresh s2)\<rparr>)"
    by blast
  from num have cl: "list_all2 (list_all2 close) (cell s (coordinates self)) ?cs"
    by (intro representable_close) blast
  show ?thesis
    using s tx f i cl by auto
qed

theorem str_from_string_round_trip_witness:
  "\<exists>self' s'. str format_10f water water_store = Inr water_str
     \<and> from_string example_masses parse_float water_str empty_store = Inr (self', s')
     \<and> labels self' = water_labels \<and> units self' = ''angstrom''
     \<and> list_all2 (list_all2 close10) water_coordinates
           (cell s' (coordinates self'))"
proof -
  have lab: "\<forall>l \<in> set (labels water). is_token l \<and> example_masses l \<noteq> None"
    using water_hyps(3) water_labels_known by (simp add: water_simps)
  have un: "units water = ''angstrom'' \<or> units water = ''bohr''"
    by (simp add: water_simps)
  from str_from_string_round_trip [OF un water_hyps(1) water_hyps(2) lab, of empty_store]
  obtain tx self' s' where "str format_10f water water_store = Inr tx"
    and "tx = ''units '' @ units water @ [newline]
             @ concat (map (\<lambda>(l, r). fmt format_10f l (r ! 0) (r ! 1) (r ! 2))
                         (zip (labels water) (cell water_store (coordinates water))))"
    and "from_string example_masses parse_float tx empty_store = Inr (self', s')"
    and "labels self' = labels water" "units self' = units water"
    and "list_all2 (list_all2 close10)
           (cell water_store (coordinates water)) (cell s' (coordinates self'))"
    by blast
  then show ?thesis
    unfolding water_simps water_text by blast
qed

end
